theory Spec2Isabelle
  imports Main "HOL-Library.Word"
begin

section \<open>The host interpreter, as far as \<open>greenlet_internal.hpp\<close> uses it\<close>

text \<open>
  A raw object handle (\<open>PyObject*\<close>, \<open>PyGreenlet*\<close>, \<open>void*\<close>) is either
  \<open>nullptr\<close> or the address of an object. The casts of the header
  (\<open>static_cast\<close>, \<open>reinterpret_cast\<close>) keep the address, so one pointer type serves
  for all of them.
\<close>

datatype ptr = nullptr | Addr nat

text \<open>The exception types of the host; the header names \<open>PyExc_TypeError\<close> only.\<close>

datatype exc_type = PyExc_TypeError | PyExc_Other nat

text \<open>
  The state of the host interpreter that the header's code reads or writes:
  the reference count of every object (\<open>ob_refcnt\<close>, a \<open>Py_ssize_t\<close>; no count
  comes near the width of the field, so it is an \<open>int\<close>), and the ambient
  pending-failure slot (the error indicator: the pending exception's type and message,
  or nothing).

  \<open>PyGreenlet_Check\<close> is a macro of the public header \<open>greenlet.h\<close>, which this
  header includes and does not define: it is taken as a parameter of the host, a
  predicate on raw handles that tells the Greenlet Nodes from every other handle.
\<close>

record host =
  ob_refcnt :: "nat \<Rightarrow> int"
  curexc :: "(exc_type \<times> string) option"
  PyGreenlet_Check :: "ptr \<Rightarrow> bool"

text \<open>
  Modelled from the spec: the host's raw reference-counting primitives (increment,
  decrement) in their null-tolerant form, \<open>Py_XINCREF\<close> and \<open>Py_XDECREF\<close>, which
  are macros of the host's headers: on \<open>nullptr\<close> they do nothing, on an object they
  move its count by one.
\<close>

fun Py_XINCREF :: "ptr \<Rightarrow> host \<Rightarrow> host" where
  "Py_XINCREF nullptr h = h"
| "Py_XINCREF (Addr a) h = h\<lparr>ob_refcnt := (ob_refcnt h)(a := ob_refcnt h a + 1)\<rparr>"

fun Py_XDECREF :: "ptr \<Rightarrow> host \<Rightarrow> host" where
  "Py_XDECREF nullptr h = h"
| "Py_XDECREF (Addr a) h = h\<lparr>ob_refcnt := (ob_refcnt h)(a := ob_refcnt h a - 1)\<rparr>"

text \<open>
  Modelled from the spec: the host's ambient pending-failure slot, read by
  \<open>PyErr_Occurred\<close> (the type of the pending failure, or nothing) and written by
  \<open>PyErr_SetString\<close> (which stores the given type and message). Both are functions
  of the host's library.
\<close>

definition PyErr_Occurred :: "host \<Rightarrow> exc_type option" where
  "PyErr_Occurred h = map_option fst (curexc h)"

definition PyErr_SetString :: "exc_type \<Rightarrow> string \<Rightarrow> host \<Rightarrow> host" where
  "PyErr_SetString t msg h = h\<lparr>curexc := Some (t, msg)\<rparr>"

section \<open>\<open>greenlet::TypeError\<close>\<close>

text \<open>
  The C++ exceptions this header throws. \<open>TypeError\<close> derives from
  \<open>std::runtime_error\<close> and carries its \<open>what\<close> string.
\<close>

datatype error = TypeError string

text \<open>
  The constructor \<open>TypeError(const char* const what)\<close>: it builds the exception object
  and, when no failure is pending in the host, registers a \<open>PyExc_TypeError\<close> with the
  same message there.
\<close>

definition TypeError_ctor :: "string \<Rightarrow> host \<Rightarrow> error \<times> host" where
  "TypeError_ctor what h =
     (TypeError what,
      if PyErr_Occurred h = None then PyErr_SetString PyExc_TypeError what h else h)"

section \<open>\<open>BorrowedReference\<close> and \<open>BorrowedGreenlet\<close>\<close>

text \<open>
  \<open>BorrowedReference<T>\<close> has the single private member \<open>T* p\<close>. Every member
  function takes the host and returns it, so that what a member does to the host can be
  read off its definition; none of them calls into the host.
\<close>

record BorrowedReference =
  br_p :: ptr

text \<open>\<open>BorrowedReference(T* it) : p(it)\<close>\<close>

definition BorrowedReference_ctor :: "ptr \<Rightarrow> host \<Rightarrow> BorrowedReference \<times> host" where
  "BorrowedReference_ctor it h = (\<lparr>br_p = it\<rparr>, h)"

text \<open>The implicit copy constructor: a member-wise copy.\<close>

definition BorrowedReference_copy :: "BorrowedReference \<Rightarrow> host \<Rightarrow> BorrowedReference \<times> host" where
  "BorrowedReference_copy other h = (\<lparr>br_p = br_p other\<rparr>, h)"

text \<open>\<open>operator T*() const\<close>\<close>

definition BorrowedReference_deref :: "BorrowedReference \<Rightarrow> host \<Rightarrow> ptr \<times> host" where
  "BorrowedReference_deref self h = (br_p self, h)"

text \<open>\<open>T* operator->() const\<close>\<close>

definition BorrowedReference_arrow :: "BorrowedReference \<Rightarrow> host \<Rightarrow> ptr \<times> host" where
  "BorrowedReference_arrow self h = (br_p self, h)"

text \<open>\<open>bool operator==(const BorrowedReference& other) const\<close>\<close>

definition BorrowedReference_eq ::
  "BorrowedReference \<Rightarrow> BorrowedReference \<Rightarrow> host \<Rightarrow> bool \<times> host" where
  "BorrowedReference_eq self other h = (br_p other = br_p self, h)"

text \<open>\<open>explicit operator bool() const\<close>\<close>

definition BorrowedReference_bool :: "BorrowedReference \<Rightarrow> host \<Rightarrow> bool \<times> host" where
  "BorrowedReference_bool self h = (br_p self \<noteq> nullptr, h)"

text \<open>The protected members \<open>_set_raw_pointer\<close> and \<open>_get_raw_pointer\<close>.\<close>

definition set_raw_pointer :: "ptr \<Rightarrow> BorrowedReference \<Rightarrow> host \<Rightarrow> BorrowedReference \<times> host" where
  "set_raw_pointer t self h = (self\<lparr>br_p := t\<rparr>, h)"

definition get_raw_pointer :: "BorrowedReference \<Rightarrow> host \<Rightarrow> ptr \<times> host" where
  "get_raw_pointer self h = (br_p self, h)"

text \<open>
  The class declares no destructor: the implicit one runs no code.
\<close>

definition BorrowedReference_dtor :: "BorrowedReference \<Rightarrow> host \<Rightarrow> host" where
  "BorrowedReference_dtor self h = h"

text \<open>
  \<open>BorrowedGreenlet\<close> derives from \<open>BorrowedReference<PyGreenlet>\<close> and adds three
  constructors and no member. A constructor either returns the new handle or throws.
\<close>

text \<open>\<open>BorrowedGreenlet() : BorrowedReference(nullptr)\<close>\<close>

definition BorrowedGreenlet_default :: "host \<Rightarrow> (error + BorrowedReference) \<times> host" where
  "BorrowedGreenlet_default h =
     (case BorrowedReference_ctor nullptr h of (self, h1) \<Rightarrow> (Inr self, h1))"

text \<open>\<open>BorrowedGreenlet(PyGreenlet* it) : BorrowedReference(it)\<close>\<close>

definition BorrowedGreenlet_of_ptr :: "ptr \<Rightarrow> host \<Rightarrow> (error + BorrowedReference) \<times> host" where
  "BorrowedGreenlet_of_ptr it h =
     (case BorrowedReference_ctor it h of (self, h1) \<Rightarrow> (Inr self, h1))"

text \<open>
  \<open>BorrowedGreenlet(const BorrowedObject& it) : BorrowedReference(nullptr)\<close>: the base
  is built empty, \<open>it\<close> is converted to its raw handle (once for the check and once for
  the store), and the handle is stored only when the check passes.
\<close>

definition BorrowedGreenlet_of_object ::
  "BorrowedReference \<Rightarrow> host \<Rightarrow> (error + BorrowedReference) \<times> host" where
  "BorrowedGreenlet_of_object it h =
     (case BorrowedReference_ctor nullptr h of (self, h1) \<Rightarrow>
      case BorrowedReference_deref it h1 of (raw, h2) \<Rightarrow>
        if \<not> PyGreenlet_Check h2 raw then
          (case TypeError_ctor ''Expected a greenlet'' h2 of (e, h3) \<Rightarrow> (Inl e, h3))
        else
          (case BorrowedReference_deref it h2 of (raw', h3) \<Rightarrow>
           case set_raw_pointer raw' self h3 of (self', h4) \<Rightarrow> (Inr self', h4)))"

section \<open>\<open>APIResult\<close>\<close>

text \<open>
  \<open>APIResult\<close> holds one \<open>PyObject* p\<close>. Assignment is deleted
  (\<open>G_NO_ASSIGNMENT_OF_CLS\<close>); it has one converting constructor, the copy
  constructor, the destructor and the validity test.
\<close>

record APIResult =
  ar_p :: ptr

text \<open>\<open>APIResult(PyObject* it) : p(it)\<close>\<close>

definition APIResult_ctor :: "ptr \<Rightarrow> host \<Rightarrow> APIResult \<times> host" where
  "APIResult_ctor it h = (\<lparr>ar_p = it\<rparr>, h)"

text \<open>\<open>APIResult(const APIResult& other) : p(other.p) { Py_XINCREF(this->p); }\<close>\<close>

definition APIResult_copy :: "APIResult \<Rightarrow> host \<Rightarrow> APIResult \<times> host" where
  "APIResult_copy other h =
     (let self = \<lparr>ar_p = ar_p other\<rparr> in (self, Py_XINCREF (ar_p self) h))"

text \<open>\<open>~APIResult() { Py_XDECREF(p); }\<close>\<close>

definition APIResult_dtor :: "APIResult \<Rightarrow> host \<Rightarrow> host" where
  "APIResult_dtor self h = Py_XDECREF (ar_p self) h"

text \<open>\<open>explicit operator bool() const\<close>\<close>

definition APIResult_bool :: "APIResult \<Rightarrow> host \<Rightarrow> bool \<times> host" where
  "APIResult_bool self h = (ar_p self \<noteq> nullptr, h)"

text \<open>
  Client code of \<open>APIResult\<close>: the wrappers alive at some moment, in the order they
  were made, and the two things a C++ program can do with them. It can copy-construct
  a new wrapper from a live one, and it can end the lifetime of a live one, which runs
  its destructor and takes it off the list; the language runs a destructor once for
  each object. A step that names no live wrapper does nothing.
\<close>

datatype APIResult_step = Copy_of nat | Destroy_of nat

fun APIResult_do :: "APIResult_step \<Rightarrow> APIResult list \<times> host \<Rightarrow> APIResult list \<times> host" where
  "APIResult_do (Copy_of i) (live, h) =
     (if i < length live
      then (case APIResult_copy (live ! i) h of (c, h') \<Rightarrow> (live @ [c], h'))
      else (live, h))"
| "APIResult_do (Destroy_of i) (live, h) =
     (if i < length live
      then (take i live @ drop (Suc i) live, APIResult_dtor (live ! i) h)
      else (live, h))"

fun APIResult_run :: "APIResult_step list \<Rightarrow> APIResult list \<times> host \<Rightarrow> APIResult list \<times> host" where
  "APIResult_run [] s = s"
| "APIResult_run (st # sts) s = APIResult_run sts (APIResult_do st s)"

text \<open>The number of the wrappers of a list that hold a reference to the object at \<open>a\<close>.\<close>

definition holders :: "nat \<Rightarrow> APIResult list \<Rightarrow> int" where
  "holders a live = int (length (filter (\<lambda>x. ar_p x = Addr a) live))"

section \<open>\<open>OutParam\<close>\<close>

text \<open>
  \<open>OutParam\<close> holds one \<open>PyObject* p\<close>; copying and assignment are deleted
  (\<open>G_NO_COPIES_OF_CLS\<close>).
\<close>

record OutParam =
  op_p :: ptr

text \<open>\<open>OutParam() : p(nullptr)\<close>\<close>

definition OutParam_ctor :: "host \<Rightarrow> OutParam \<times> host" where
  "OutParam_ctor h = (\<lparr>op_p = nullptr\<rparr>, h)"

text \<open>
  \<open>PyObject** operator&()\<close> and \<open>operator PyObject**()\<close> both return
  \<open>&this->p\<close>. The address of the slot is what an external call stores through:
  \<open>OutParam_address_of self v\<close> is the wrapper after the store \<open>*slot = v\<close>.
\<close>

definition OutParam_address_of :: "OutParam \<Rightarrow> ptr \<Rightarrow> OutParam" where
  "OutParam_address_of self v = self\<lparr>op_p := v\<rparr>"

text \<open>
  \<open>PyObject* disown()\<close>: returns the held handle and clears the slot. The result is
  the returned handle, the wrapper afterwards, and the host.
\<close>

definition OutParam_disown :: "OutParam \<Rightarrow> host \<Rightarrow> ptr \<times> OutParam \<times> host" where
  "OutParam_disown self h = (let result = op_p self in (result, self\<lparr>op_p := nullptr\<rparr>, h))"

text \<open>
  A value of type \<open>PyObject**\<close>, as far as the header makes one: the null pointer, or
  the address \<open>&this->p\<close> of the member \<open>p\<close> of the wrapper at hand. The address of
  a member of an object is never the null pointer.
\<close>

datatype slot_ptr = null_slot | Slot_p

text \<open>
  \<open>operator PyObject**()\<close>, lines 265 to 268: a conversion function that is neither
  \<open>const\<close> nor \<open>explicit\<close>, returning \<open>&this->p\<close>. (The stores an external call
  makes through that address are \<open>OutParam_address_of\<close> above.)
\<close>

definition OutParam_operator_slot :: "OutParam \<Rightarrow> host \<Rightarrow> slot_ptr \<times> host" where
  "OutParam_operator_slot self h = (Slot_p, h)"

text \<open>\<open>explicit operator bool() const\<close>, lines 280 to 283\<close>

definition OutParam_operator_bool :: "OutParam \<Rightarrow> host \<Rightarrow> bool \<times> host" where
  "OutParam_operator_bool self h = (op_p self \<noteq> nullptr, h)"

text \<open>
  The validity test of a wrapper is a conversion of an expression of type \<open>OutParam\<close>
  to \<open>bool\<close>: \<open>if (x)\<close>, \<open>!x\<close>, \<open>(bool)x\<close>. Both conversion functions of the class
  are candidates for it, \<open>operator PyObject**()\<close> because a pointer converts to
  \<open>bool\<close>, and the language chooses between them by the implicit object parameter.
  For an expression that is not \<open>const\<close>, which is what a wrapper that can be
  populated or disowned is, \<open>OutParam&\<close> binds better than \<open>const OutParam&\<close>: the
  pointer conversion is selected and its result is tested against null. Only for a
  \<open>const\<close> expression, where the pointer conversion is not viable, is
  \<open>operator bool() const\<close> selected.
\<close>

datatype cv_qualifier = Non_const | Const

definition OutParam_to_bool :: "cv_qualifier \<Rightarrow> OutParam \<Rightarrow> host \<Rightarrow> bool \<times> host" where
  "OutParam_to_bool cv self h =
     (case cv of
        Non_const \<Rightarrow> (case OutParam_operator_slot self h of (slot, h') \<Rightarrow> (slot \<noteq> null_slot, h'))
      | Const \<Rightarrow> OutParam_operator_bool self h)"

text \<open>\<open>~OutParam() { Py_XDECREF(p); }\<close>\<close>

definition OutParam_dtor :: "OutParam \<Rightarrow> host \<Rightarrow> host" where
  "OutParam_dtor self h = Py_XDECREF (op_p self) h"

section \<open>\<open>PythonAllocator\<close>\<close>

text \<open>
  \<open>size_t\<close> on the 64-bit platforms the extension is built for; the product
  \<open>sizeof(T) * number_objects\<close> wraps as the machine's does.
\<close>

type_synonym size_t = "64 word"

text \<open>
  The allocator is stateless; what it does is call the host's allocators and the value's
  destructor. These calls are the effects of the model: each member function appends the
  calls it makes to the trace of calls made so far. The host's four allocation functions
  belong to the host's library; a call is recorded with its argument, and what an
  allocation call returns is a parameter \<open>ret\<close> of \<open>allocate\<close>.
  \<open>Destroy t\<close> is the call \<open>t->~T()\<close> that \<open>std::allocator<T>::destroy\<close> makes.
\<close>

datatype alloc_call =
    PyObject_Malloc size_t
  | PyMem_Malloc size_t
  | PyObject_Free ptr
  | PyMem_Free ptr
  | Destroy ptr

text \<open>\<open>T* allocate(size_t number_objects, const void* hint=0)\<close>, for a \<open>T\<close> of size \<open>sizeof_T\<close>\<close>

definition allocate ::
  "(alloc_call \<Rightarrow> ptr) \<Rightarrow> size_t \<Rightarrow> size_t \<Rightarrow> alloc_call list \<Rightarrow> ptr \<times> alloc_call list" where
  "allocate ret sizeof_T number_objects tr =
     (if number_objects = 1
      then (ret (PyObject_Malloc sizeof_T), tr @ [PyObject_Malloc sizeof_T])
      else (ret (PyMem_Malloc (sizeof_T * number_objects)),
            tr @ [PyMem_Malloc (sizeof_T * number_objects)]))"

text \<open>\<open>void deallocate(T* t, size_t n)\<close>\<close>

definition deallocate :: "ptr \<Rightarrow> size_t \<Rightarrow> alloc_call list \<Rightarrow> alloc_call list" where
  "deallocate t n tr = (if n = 1 then tr @ [PyObject_Free t] else tr @ [PyMem_Free t])"

text \<open>\<open>std::allocator<T>::destroy(T* t)\<close>, inherited from the base class\<close>

definition destroy :: "ptr \<Rightarrow> alloc_call list \<Rightarrow> alloc_call list" where
  "destroy t tr = tr @ [Destroy t]"

text \<open>\<open>void dispose(T* other)\<close>\<close>

definition dispose :: "ptr \<Rightarrow> alloc_call list \<Rightarrow> alloc_call list" where
  "dispose other tr = deallocate other 1 (destroy other tr)"

text \<open>
  The host has two allocators, each with its own release function: the per-object
  allocator (\<open>PyObject_Malloc\<close>, \<open>PyObject_Free\<close>) and the general-purpose one
  (\<open>PyMem_Malloc\<close>, \<open>PyMem_Free\<close>). A destructor call belongs to neither.
\<close>

datatype host_allocator = Per_object | General_purpose

fun allocator_of :: "alloc_call \<Rightarrow> host_allocator option" where
  "allocator_of (PyObject_Malloc _) = Some Per_object"
| "allocator_of (PyObject_Free _) = Some Per_object"
| "allocator_of (PyMem_Malloc _) = Some General_purpose"
| "allocator_of (PyMem_Free _) = Some General_purpose"
| "allocator_of (Destroy _) = None"

section \<open>The error contract of \<open>TypeError\<close>\<close>

text \<open>
  C10: when a failure is already pending in the host's ambient pending-failure slot,
  constructing a type error leaves the whole host state, and so the slot, exactly as it
  was; the slot is written only when it was empty, and whatever the slot held before,
  everything else of the host is left alone.
\<close>

theorem TypeError_keeps_pending_failure:
  "(PyErr_Occurred h \<noteq> None \<longrightarrow> snd (TypeError_ctor what h) = h) \<and>
   (curexc (snd (TypeError_ctor what h)) \<noteq> curexc h \<longrightarrow> curexc h = None) \<and>
   ob_refcnt (snd (TypeError_ctor what h)) = ob_refcnt h \<and>
   PyGreenlet_Check (snd (TypeError_ctor what h)) = PyGreenlet_Check h"
  by (simp add: TypeError_ctor_def PyErr_SetString_def PyErr_Occurred_def)

theorem TypeError_keeps_pending_failure_witness:
  "PyErr_Occurred \<lparr>ob_refcnt = (\<lambda>_. 1), curexc = Some (PyExc_Other 3, ''boom''),
                   PyGreenlet_Check = (\<lambda>q. q = Addr 7)\<rparr> \<noteq> None \<and>
   curexc (snd (TypeError_ctor ''Expected a greenlet''
     \<lparr>ob_refcnt = (\<lambda>_. 1), curexc = Some (PyExc_Other 3, ''boom''),
      PyGreenlet_Check = (\<lambda>q. q = Addr 7)\<rparr>)) = Some (PyExc_Other 3, ''boom'')"
  using TypeError_keeps_pending_failure
    [of "\<lparr>ob_refcnt = (\<lambda>_. 1), curexc = Some (PyExc_Other 3, ''boom''),
          PyGreenlet_Check = (\<lambda>q. q = Addr 7)\<rparr>" "''Expected a greenlet''"]
  by (simp add: PyErr_Occurred_def)

section \<open>Borrowed handles\<close>

text \<open>
  C1: for every object handle that is not a Greenlet Node (the host's check rejects the
  raw handle that \<open>it\<close> wraps), constructing a \<open>BorrowedGreenlet\<close> from it throws the
  type error "Expected a greenlet"; if the host's pending-failure slot was empty, the
  slot afterwards holds a \<open>PyExc_TypeError\<close> with the same message, so both channels
  report the same failure; and in every case a failure is pending afterwards.
\<close>

theorem BorrowedGreenlet_rejects_non_greenlet:
  "\<not> PyGreenlet_Check h (fst (BorrowedReference_deref it h)) \<Longrightarrow>
   fst (BorrowedGreenlet_of_object it h) = Inl (TypeError ''Expected a greenlet'') \<and>
   (PyErr_Occurred h = None \<longrightarrow>
      curexc (snd (BorrowedGreenlet_of_object it h)) = Some (PyExc_TypeError, ''Expected a greenlet'') \<and>
      PyErr_Occurred (snd (BorrowedGreenlet_of_object it h)) = Some PyExc_TypeError) \<and>
   PyErr_Occurred (snd (BorrowedGreenlet_of_object it h)) \<noteq> None"
  by (auto simp: BorrowedGreenlet_of_object_def BorrowedReference_ctor_def
      BorrowedReference_deref_def TypeError_ctor_def PyErr_SetString_def PyErr_Occurred_def)

theorem BorrowedGreenlet_rejects_non_greenlet_witness:
  "\<not> PyGreenlet_Check \<lparr>ob_refcnt = (\<lambda>_. 1), curexc = None, PyGreenlet_Check = (\<lambda>q. q = Addr 7)\<rparr>
       (fst (BorrowedReference_deref \<lparr>br_p = Addr 5\<rparr>
          \<lparr>ob_refcnt = (\<lambda>_. 1), curexc = None, PyGreenlet_Check = (\<lambda>q. q = Addr 7)\<rparr>)) \<and>
   PyErr_Occurred \<lparr>ob_refcnt = (\<lambda>_. 1), curexc = None, PyGreenlet_Check = (\<lambda>q. q = Addr 7)\<rparr> = None \<and>
   BorrowedGreenlet_of_object \<lparr>br_p = Addr 5\<rparr>
      \<lparr>ob_refcnt = (\<lambda>_. 1), curexc = None, PyGreenlet_Check = (\<lambda>q. q = Addr 7)\<rparr> =
     (Inl (TypeError ''Expected a greenlet''),
      \<lparr>ob_refcnt = (\<lambda>_. 1), curexc = Some (PyExc_TypeError, ''Expected a greenlet''),
       PyGreenlet_Check = (\<lambda>q. q = Addr 7)\<rparr>)"
proof -
  let ?H = "\<lparr>ob_refcnt = (\<lambda>_. 1), curexc = None, PyGreenlet_Check = (\<lambda>q. q = Addr 7)\<rparr>"
  have chk: "\<not> PyGreenlet_Check ?H (fst (BorrowedReference_deref \<lparr>br_p = Addr 5\<rparr> ?H))"
    by (simp add: BorrowedReference_deref_def)
  have emp: "PyErr_Occurred ?H = None"
    by (simp add: PyErr_Occurred_def)
  have rest: "ob_refcnt (snd (BorrowedGreenlet_of_object \<lparr>br_p = Addr 5\<rparr> ?H)) = ob_refcnt ?H \<and>
      PyGreenlet_Check (snd (BorrowedGreenlet_of_object \<lparr>br_p = Addr 5\<rparr> ?H)) = PyGreenlet_Check ?H"
    by (simp add: BorrowedGreenlet_of_object_def BorrowedReference_ctor_def
        BorrowedReference_deref_def TypeError_ctor_def PyErr_SetString_def PyErr_Occurred_def)
  from BorrowedGreenlet_rejects_non_greenlet[OF chk] emp
  have "fst (BorrowedGreenlet_of_object \<lparr>br_p = Addr 5\<rparr> ?H) = Inl (TypeError ''Expected a greenlet'')"
    and "curexc (snd (BorrowedGreenlet_of_object \<lparr>br_p = Addr 5\<rparr> ?H)) =
      Some (PyExc_TypeError, ''Expected a greenlet'')"
    by blast+
  with rest have "BorrowedGreenlet_of_object \<lparr>br_p = Addr 5\<rparr> ?H =
     (Inl (TypeError ''Expected a greenlet''),
      \<lparr>ob_refcnt = (\<lambda>_. 1), curexc = Some (PyExc_TypeError, ''Expected a greenlet''),
       PyGreenlet_Check = (\<lambda>q. q = Addr 7)\<rparr>)"
    by (cases "BorrowedGreenlet_of_object \<lparr>br_p = Addr 5\<rparr> ?H") (auto intro: host.equality)
  with chk emp show ?thesis by blast
qed

text \<open>
  C5: for every handle that the host's check accepts as a Greenlet Node, constructing a
  \<open>BorrowedGreenlet\<close> from it returns a handle and throws nothing, the host state
  (and so its pending-failure slot) is as it was, and dereferencing the new handle, by
  the conversion or by \<open>->\<close>, yields the very handle it was built from. This holds for
  the checking constructor from a \<open>BorrowedObject\<close> and for the constructor from a
  \<open>PyGreenlet*\<close>.
\<close>

theorem BorrowedGreenlet_accepts_greenlet:
  "PyGreenlet_Check h (fst (BorrowedReference_deref it h)) \<Longrightarrow>
   (\<exists>g. BorrowedGreenlet_of_object it h = (Inr g, h) \<and>
        BorrowedReference_deref g h = (fst (BorrowedReference_deref it h), h) \<and>
        BorrowedReference_arrow g h = (fst (BorrowedReference_deref it h), h)) \<and>
   (\<exists>g. BorrowedGreenlet_of_ptr (fst (BorrowedReference_deref it h)) h = (Inr g, h) \<and>
        BorrowedReference_deref g h = (fst (BorrowedReference_deref it h), h) \<and>
        BorrowedReference_arrow g h = (fst (BorrowedReference_deref it h), h))"
  by (simp add: BorrowedGreenlet_of_object_def BorrowedGreenlet_of_ptr_def
      BorrowedReference_ctor_def BorrowedReference_deref_def BorrowedReference_arrow_def
      set_raw_pointer_def)

theorem BorrowedGreenlet_accepts_greenlet_witness:
  "PyGreenlet_Check \<lparr>ob_refcnt = (\<lambda>_. 1), curexc = None, PyGreenlet_Check = (\<lambda>q. q = Addr 7)\<rparr>
       (fst (BorrowedReference_deref \<lparr>br_p = Addr 7\<rparr>
          \<lparr>ob_refcnt = (\<lambda>_. 1), curexc = None, PyGreenlet_Check = (\<lambda>q. q = Addr 7)\<rparr>)) \<and>
   (\<exists>g. BorrowedGreenlet_of_object \<lparr>br_p = Addr 7\<rparr>
          \<lparr>ob_refcnt = (\<lambda>_. 1), curexc = None, PyGreenlet_Check = (\<lambda>q. q = Addr 7)\<rparr> =
        (Inr g, \<lparr>ob_refcnt = (\<lambda>_. 1), curexc = None, PyGreenlet_Check = (\<lambda>q. q = Addr 7)\<rparr>) \<and>
      BorrowedReference_deref g
          \<lparr>ob_refcnt = (\<lambda>_. 1), curexc = None, PyGreenlet_Check = (\<lambda>q. q = Addr 7)\<rparr> =
        (Addr 7, \<lparr>ob_refcnt = (\<lambda>_. 1), curexc = None, PyGreenlet_Check = (\<lambda>q. q = Addr 7)\<rparr>))"
proof -
  let ?H = "\<lparr>ob_refcnt = (\<lambda>_. 1), curexc = None, PyGreenlet_Check = (\<lambda>q. q = Addr 7)\<rparr>"
  have raw: "fst (BorrowedReference_deref \<lparr>br_p = Addr 7\<rparr> ?H) = Addr 7"
    by (simp add: BorrowedReference_deref_def)
  have chk: "PyGreenlet_Check ?H (fst (BorrowedReference_deref \<lparr>br_p = Addr 7\<rparr> ?H))"
    by (simp add: raw)
  from BorrowedGreenlet_accepts_greenlet[OF chk] chk show ?thesis
    unfolding raw by blast
qed

text \<open>
  C9: a default-constructed \<open>BorrowedGreenlet\<close> is an empty handle: the constructor
  returns a handle and throws nothing, the host state (and so its pending-failure slot)
  is as it was, the handle wraps \<open>nullptr\<close>, and its validity test is false.
\<close>

theorem BorrowedGreenlet_default_is_empty:
  "\<exists>g. BorrowedGreenlet_default h = (Inr g, h) \<and>
       BorrowedReference_deref g h = (nullptr, h) \<and>
       BorrowedReference_bool g h = (False, h)"
  by (simp add: BorrowedGreenlet_default_def BorrowedReference_ctor_def
      BorrowedReference_deref_def BorrowedReference_bool_def)

lemma BorrowedGreenlet_of_object_refcnt:
  "ob_refcnt (snd (BorrowedGreenlet_of_object it h)) = ob_refcnt h"
  by (simp add: BorrowedGreenlet_of_object_def BorrowedReference_ctor_def
      BorrowedReference_deref_def set_raw_pointer_def TypeError_ctor_def PyErr_SetString_def)

text \<open>
  C6: every operation of a Borrowed handle leaves every reference count as it was:
  construction from a raw handle, copying, the two dereferences, equality, the validity
  test, the protected accessors and destruction return the host unchanged, and so do
  the plain constructors of \<open>BorrowedGreenlet\<close>; its checking constructor may write the
  pending-failure slot but no reference count. These are all the members of the two
  classes, so none of them releases the wrapped reference.
\<close>

theorem BorrowedReference_never_touches_refcount:
  "snd (BorrowedReference_ctor it h) = h \<and>
   snd (BorrowedReference_copy self h) = h \<and>
   snd (BorrowedReference_deref self h) = h \<and>
   snd (BorrowedReference_arrow self h) = h \<and>
   snd (BorrowedReference_eq self other h) = h \<and>
   snd (BorrowedReference_bool self h) = h \<and>
   snd (set_raw_pointer it self h) = h \<and>
   snd (get_raw_pointer self h) = h \<and>
   BorrowedReference_dtor self h = h \<and>
   snd (BorrowedGreenlet_default h) = h \<and>
   snd (BorrowedGreenlet_of_ptr it h) = h \<and>
   ob_refcnt (snd (BorrowedGreenlet_of_object self h)) = ob_refcnt h"
  by (simp add: BorrowedReference_ctor_def BorrowedReference_copy_def BorrowedReference_deref_def
      BorrowedReference_arrow_def BorrowedReference_eq_def BorrowedReference_bool_def
      set_raw_pointer_def get_raw_pointer_def BorrowedReference_dtor_def
      BorrowedGreenlet_default_def BorrowedGreenlet_of_ptr_def BorrowedGreenlet_of_object_refcnt)

section \<open>Owned results\<close>

lemma Py_XINCREF_frame:
  "curexc (Py_XINCREF q h) = curexc h \<and> PyGreenlet_Check (Py_XINCREF q h) = PyGreenlet_Check h"
  by (cases q) simp_all

lemma Py_XDECREF_frame:
  "curexc (Py_XDECREF q h) = curexc h \<and> PyGreenlet_Check (Py_XDECREF q h) = PyGreenlet_Check h"
  by (cases q) simp_all

lemma refcnt_Py_XINCREF:
  "ob_refcnt (Py_XINCREF q h) a = ob_refcnt h a + (if q = Addr a then 1 else 0)"
  by (cases q) simp_all

lemma refcnt_Py_XDECREF:
  "ob_refcnt (Py_XDECREF q h) a = ob_refcnt h a - (if q = Addr a then 1 else 0)"
  by (cases q) simp_all

lemma holders_append: "holders a (xs @ ys) = holders a xs + holders a ys"
  by (simp add: holders_def)

lemma holders_Cons:
  "holders a (x # xs) = (if ar_p x = Addr a then 1 else 0) + holders a xs"
  by (simp add: holders_def)

lemma holders_Nil: "holders a [] = 0"
  by (simp add: holders_def)

lemma holders_remove:
  assumes "i < length live"
  shows "holders a (take i live @ drop (Suc i) live) =
         holders a live - (if ar_p (live ! i) = Addr a then 1 else 0)"
proof -
  have "holders a live = holders a (take i live @ (live ! i) # drop (Suc i) live)"
    using assms by (simp add: id_take_nth_drop [symmetric])
  then show ?thesis
    by (simp add: holders_append holders_Cons)
qed

lemma APIResult_do_balance:
  "APIResult_do st (live, h) = (live', h') \<Longrightarrow>
   ob_refcnt h' a - holders a live' = ob_refcnt h a - holders a live"
proof (cases st)
  case (Copy_of i)
  assume "APIResult_do st (live, h) = (live', h')"
  with Copy_of show ?thesis
    by (auto simp: APIResult_copy_def Let_def holders_append holders_def refcnt_Py_XINCREF
        split: if_splits)
next
  case (Destroy_of i)
  assume "APIResult_do st (live, h) = (live', h')"
  with Destroy_of show ?thesis
    by (auto simp: APIResult_dtor_def holders_remove refcnt_Py_XDECREF split: if_splits)
qed

lemma APIResult_run_balance:
  "APIResult_run sts (live, h) = (live', h') \<Longrightarrow>
   ob_refcnt h' a - holders a live' = ob_refcnt h a - holders a live"
proof (induction sts arbitrary: live h)
  case Nil
  then show ?case by simp
next
  case (Cons st sts)
  obtain l1 h1 where s1: "APIResult_do st (live, h) = (l1, h1)"
    by (cases "APIResult_do st (live, h)")
  with Cons.prems have "APIResult_run sts (l1, h1) = (live', h')" by simp
  from Cons.IH[OF this] APIResult_do_balance[OF s1] show ?case by simp
qed

lemma APIResult_do_frame:
  "APIResult_do st (live, h) = (live', h') \<Longrightarrow>
   curexc h' = curexc h \<and> PyGreenlet_Check h' = PyGreenlet_Check h"
  by (cases st)
     (auto simp: APIResult_copy_def APIResult_dtor_def Let_def Py_XINCREF_frame Py_XDECREF_frame
       split: if_splits)

lemma APIResult_run_frame:
  "APIResult_run sts (live, h) = (live', h') \<Longrightarrow>
   curexc h' = curexc h \<and> PyGreenlet_Check h' = PyGreenlet_Check h"
proof (induction sts arbitrary: live h)
  case Nil
  then show ?case by simp
next
  case (Cons st sts)
  obtain l1 h1 where s1: "APIResult_do st (live, h) = (l1, h1)"
    by (cases "APIResult_do st (live, h)")
  with Cons.prems have "APIResult_run sts (l1, h1) = (live', h')" by simp
  from Cons.IH[OF this] APIResult_do_frame[OF s1] show ?case by simp
qed

lemma APIResult_run_all_released:
  assumes "APIResult_run sts ([\<lparr>ar_p = it\<rparr>], h) = ([], h')"
  shows "h' = Py_XDECREF it h"
proof (rule host.equality)
  show "ob_refcnt h' = ob_refcnt (Py_XDECREF it h)"
  proof
    fix a
    from APIResult_run_balance[OF assms, of a]
    show "ob_refcnt h' a = ob_refcnt (Py_XDECREF it h) a"
      by (simp add: holders_Nil holders_Cons refcnt_Py_XDECREF)
  qed
  from APIResult_run_frame[OF assms]
  show "curexc h' = curexc (Py_XDECREF it h)"
    and "PyGreenlet_Check h' = PyGreenlet_Check (Py_XDECREF it h)"
    by (simp_all add: Py_XDECREF_frame)
qed simp

text \<open>
  C2: constructing an \<open>APIResult\<close> from a handle stores the handle and leaves the host,
  and so every reference count, as it was; copying a wrapper that holds the object at
  \<open>a\<close> raises the count of \<open>a\<close> by one and copying an empty one changes nothing;
  destroying a wrapper that holds \<open>a\<close> lowers the count of \<open>a\<close> by one and destroying
  an empty one changes nothing. For every sequence of copies and destructions that starts
  from one wrapper built from \<open>it\<close>, the count of every object is at each moment its
  starting count, less the one reference the first wrapper took over, plus one for each
  live wrapper that holds it; so when every wrapper has been destroyed, the host is the
  starting host after exactly one release of \<open>it\<close>: no reference is released twice and
  none is kept.
\<close>

theorem APIResult_reference_counting:
  "APIResult_ctor it h = (\<lparr>ar_p = it\<rparr>, h) \<and>
   APIResult_copy \<lparr>ar_p = Addr a\<rparr> h =
     (\<lparr>ar_p = Addr a\<rparr>, h\<lparr>ob_refcnt := (ob_refcnt h)(a := ob_refcnt h a + 1)\<rparr>) \<and>
   APIResult_copy \<lparr>ar_p = nullptr\<rparr> h = (\<lparr>ar_p = nullptr\<rparr>, h) \<and>
   APIResult_dtor \<lparr>ar_p = Addr a\<rparr> h = h\<lparr>ob_refcnt := (ob_refcnt h)(a := ob_refcnt h a - 1)\<rparr> \<and>
   APIResult_dtor \<lparr>ar_p = nullptr\<rparr> h = h \<and>
   (APIResult_run sts ([fst (APIResult_ctor it h)], h) = (live', h') \<longrightarrow>
      ob_refcnt h' a = ob_refcnt h a - holders a [\<lparr>ar_p = it\<rparr>] + holders a live' \<and>
      (live' = [] \<longrightarrow> h' = Py_XDECREF it h))"
proof -
  have run: "ob_refcnt h' a = ob_refcnt h a - holders a [\<lparr>ar_p = it\<rparr>] + holders a live' \<and>
      (live' = [] \<longrightarrow> h' = Py_XDECREF it h)"
    if r: "APIResult_run sts ([\<lparr>ar_p = it\<rparr>], h) = (live', h')"
    using APIResult_run_balance[OF r, of a] APIResult_run_all_released[of sts it h h'] r
    by auto
  show ?thesis
    using run by (simp add: APIResult_ctor_def APIResult_copy_def APIResult_dtor_def)
qed

theorem APIResult_reference_counting_witness:
  "APIResult_run [Copy_of 0, Copy_of 1, Destroy_of 1, Destroy_of 0, Destroy_of 0]
     ([fst (APIResult_ctor (Addr 5)
        \<lparr>ob_refcnt = (\<lambda>_. 1), curexc = None, PyGreenlet_Check = (\<lambda>q. q = Addr 7)\<rparr>)],
      \<lparr>ob_refcnt = (\<lambda>_. 1), curexc = None, PyGreenlet_Check = (\<lambda>q. q = Addr 7)\<rparr>)
   = ([], \<lparr>ob_refcnt = (\<lambda>_. 1)(5 := 0), curexc = None, PyGreenlet_Check = (\<lambda>q. q = Addr 7)\<rparr>)"
proof -
  let ?H = "\<lparr>ob_refcnt = (\<lambda>_. 1), curexc = None, PyGreenlet_Check = (\<lambda>q. q = Addr 7)\<rparr>"
  let ?sts = "[Copy_of 0, Copy_of 1, Destroy_of 1, Destroy_of 0, Destroy_of 0]"
  obtain live' h' where r: "APIResult_run ?sts ([fst (APIResult_ctor (Addr 5) ?H)], ?H) = (live', h')"
    by (cases "APIResult_run ?sts ([fst (APIResult_ctor (Addr 5) ?H)], ?H)")
  then have l: "live' = []"
    by (simp add: APIResult_ctor_def APIResult_copy_def APIResult_dtor_def)
  from APIResult_reference_counting[of "Addr 5" ?H 5 ?sts live' h'] r l
  have "h' = Py_XDECREF (Addr 5) ?H" by blast
  with r l show ?thesis by simp
qed

section \<open>Out-parameters\<close>

text \<open>
  What holds of the ownership protocol of an \<open>OutParam\<close>. It is built with an empty
  slot and the host untouched. Once an external call has stored a handle \<open>v\<close> through
  the address of the slot, \<open>disown\<close> returns \<open>v\<close> and leaves the slot empty, so a
  second \<open>disown\<close> returns \<open>nullptr\<close>. Destruction releases whatever the slot holds
  at that moment: a populated wrapper that was never disowned lowers the count of its
  object by one, and a wrapper that was disowned releases nothing, so that the single
  release left is the one of the handle \<open>disown\<close> gave to the caller.
\<close>

lemma OutParam_disown_and_destroy:
  "OutParam_ctor h = (\<lparr>op_p = nullptr\<rparr>, h) \<and>
   OutParam_disown (OutParam_address_of (fst (OutParam_ctor h)) v) h =
     (v, \<lparr>op_p = nullptr\<rparr>, h) \<and>
   OutParam_disown \<lparr>op_p = nullptr\<rparr> h = (nullptr, \<lparr>op_p = nullptr\<rparr>, h) \<and>
   OutParam_dtor self h = Py_XDECREF (op_p self) h \<and>
   OutParam_dtor (OutParam_address_of (fst (OutParam_ctor h)) (Addr a)) h =
     h\<lparr>ob_refcnt := (ob_refcnt h)(a := ob_refcnt h a - 1)\<rparr> \<and>
   OutParam_dtor
     (fst (snd (OutParam_disown (OutParam_address_of (fst (OutParam_ctor h)) (Addr a)) h))) h = h \<and>
   Py_XDECREF (fst (OutParam_disown (OutParam_address_of (fst (OutParam_ctor h)) (Addr a)) h))
     (OutParam_dtor
       (fst (snd (OutParam_disown (OutParam_address_of (fst (OutParam_ctor h)) (Addr a)) h))) h) =
     h\<lparr>ob_refcnt := (ob_refcnt h)(a := ob_refcnt h a - 1)\<rparr>"
  by (simp add: OutParam_ctor_def OutParam_address_of_def OutParam_disown_def OutParam_dtor_def)

text \<open>
  C3: the claim has an \<open>OutParam\<close> start empty with its validity test false, and empty
  again after \<open>disown\<close>. The slot is indeed \<open>nullptr\<close> at both moments, and the
  member \<open>operator bool() const\<close> would say so; but the validity test of a wrapper
  that is not \<open>const\<close> selects \<open>operator PyObject**()\<close> and is true whatever the
  slot holds: on a freshly built wrapper, on a populated one, and on one that has been
  disowned. The member written for the test is reached only through a \<open>const\<close>
  expression.
\<close>

theorem OutParam_validity_test_always_true:
  "op_p (fst (OutParam_ctor h)) = nullptr \<and>
   OutParam_to_bool Non_const (fst (OutParam_ctor h)) h = (True, h) \<and>
   OutParam_operator_bool (fst (OutParam_ctor h)) h = (False, h) \<and>
   OutParam_to_bool Const (fst (OutParam_ctor h)) h = (False, h) \<and>
   op_p (fst (snd (OutParam_disown (OutParam_address_of (fst (OutParam_ctor h)) (Addr a)) h))) =
     nullptr \<and>
   OutParam_to_bool Non_const
     (fst (snd (OutParam_disown (OutParam_address_of (fst (OutParam_ctor h)) (Addr a)) h))) h =
     (True, h) \<and>
   OutParam_to_bool Non_const self h = (True, h)"
  by (simp add: OutParam_ctor_def OutParam_to_bool_def OutParam_operator_slot_def
      OutParam_operator_bool_def OutParam_address_of_def OutParam_disown_def)

section \<open>The allocator\<close>

text \<open>
  C4: a request for exactly one object makes one call to the per-object allocator,
  \<open>PyObject_Malloc(sizeof(T))\<close>, and a request for any other number one call to the
  general-purpose allocator, \<open>PyMem_Malloc(sizeof(T) * number_objects)\<close>; a
  deallocation with count one calls \<open>PyObject_Free\<close> and with any other count
  \<open>PyMem_Free\<close>. So an allocation and a deallocation with equal counts call the same
  one of the host's two allocators.
\<close>

theorem allocate_deallocate_same_allocator:
  "(number_objects = 1 \<longrightarrow>
      allocate ret sizeof_T number_objects tr =
        (ret (PyObject_Malloc sizeof_T), tr @ [PyObject_Malloc sizeof_T])) \<and>
   (number_objects \<noteq> 1 \<longrightarrow>
      allocate ret sizeof_T number_objects tr =
        (ret (PyMem_Malloc (sizeof_T * number_objects)),
         tr @ [PyMem_Malloc (sizeof_T * number_objects)])) \<and>
   (number_objects = 1 \<longrightarrow> deallocate t number_objects tr' = tr' @ [PyObject_Free t]) \<and>
   (number_objects \<noteq> 1 \<longrightarrow> deallocate t number_objects tr' = tr' @ [PyMem_Free t]) \<and>
   allocator_of (last (snd (allocate ret sizeof_T number_objects tr))) =
     allocator_of (last (deallocate t number_objects tr')) \<and>
   allocator_of (last (deallocate t number_objects tr')) \<noteq> None"
  by (simp add: allocate_def deallocate_def)

theorem allocate_deallocate_same_allocator_witness:
  "allocate (\<lambda>_. Addr 64) 24 1 [] = (Addr 64, [PyObject_Malloc 24]) \<and>
   deallocate (Addr 64) 1 [PyObject_Malloc 24] = [PyObject_Malloc 24, PyObject_Free (Addr 64)] \<and>
   allocate (\<lambda>_. Addr 64) 24 3 [] = (Addr 64, [PyMem_Malloc 72]) \<and>
   deallocate (Addr 64) 3 [PyMem_Malloc 72] = [PyMem_Malloc 72, PyMem_Free (Addr 64)]"
  using allocate_deallocate_same_allocator
          [of 1 "\<lambda>_. Addr 64" 24 "[]" "Addr 64" "[PyObject_Malloc 24]"]
        allocate_deallocate_same_allocator
          [of 3 "\<lambda>_. Addr 64" 24 "[]" "Addr 64" "[PyMem_Malloc 72]"]
  by simp

text \<open>
  C7: \<open>dispose(t)\<close> is \<open>destroy(t)\<close> followed by \<open>deallocate(t, 1)\<close>: the calls it
  adds to the trace are the value's destructor and then the per-object release
  \<open>PyObject_Free(t)\<close>, in that order.
\<close>

theorem dispose_destroys_then_releases:
  "dispose other tr = deallocate other 1 (destroy other tr) \<and>
   dispose other tr = tr @ [Destroy other, PyObject_Free other]"
  by (simp add: dispose_def deallocate_def destroy_def)

end
